theory Spec2Isabelle
  imports Main "HOL-Library.Sublist"
begin

section \<open>Python values used by the state module\<close>

text \<open>
  The execution module behind \<^verbatim>\<open>__salt__\<close> answers with \<^verbatim>\<open>True\<close>, \<^verbatim>\<open>False\<close> or
  \<^verbatim>\<open>None\<close>. The state module tests these answers in three different ways
  (\<^verbatim>\<open>is True\<close>, \<^verbatim>\<open>is None\<close>, \<^verbatim>\<open>is False\<close> and plain truthiness), so the three
  values are kept apart.
\<close>

datatype pyval = PyNone | PyBool bool

fun truthy :: "pyval \<Rightarrow> bool" where
  "truthy PyNone = False"
| "truthy (PyBool b) = b"

text \<open>
  The keyword arguments \<^verbatim>\<open>privileges\<close>, \<^verbatim>\<open>grant\<close>, \<^verbatim>\<open>database\<close>, \<^verbatim>\<open>user\<close> and
  \<^verbatim>\<open>host\<close> are strings or \<^verbatim>\<open>None\<close>.
\<close>

type_synonym pystr = "string option"

fun py_str :: "pystr \<Rightarrow> string" where
  "py_str None = ''None''"
| "py_str (Some s) = s"

definition digit_of :: "char \<Rightarrow> nat option" where
  "digit_of c =
     map_of [(CHR ''0'', 0), (CHR ''1'', 1), (CHR ''2'', 2), (CHR ''3'', 3), (CHR ''4'', 4),
             (CHR ''5'', 5), (CHR ''6'', 6), (CHR ''7'', 7), (CHR ''8'', 8), (CHR ''9'', 9)] c"

text \<open>
  \<^verbatim>\<open>str.format\<close> for the templates of this module: a replacement field is \<^verbatim>\<open>{d}\<close>
  with one decimal digit, and is replaced by \<^verbatim>\<open>str\<close> of the \<open>d\<close>-th positional
  argument. Python raises IndexError for a field beyond the arguments; every template
  of the module is applied to as many arguments as it has fields, and the model leaves
  such a field as it is.
\<close>

fun py_format :: "string \<Rightarrow> pystr list \<Rightarrow> string" where
  "py_format (a # b # c # rest) args =
     (if a = CHR ''{'' \<and> c = CHR ''}'' then
        (case digit_of b of
           Some n \<Rightarrow>
             (if n < length args then py_str (args ! n) else [a, b, c]) @ py_format rest args
         | None \<Rightarrow> a # py_format (b # c # rest) args)
      else a # py_format (b # c # rest) args)"
| "py_format (a # rest) args = a # py_format rest args"
| "py_format [] args = []"

section \<open>The backend behind \<^verbatim>\<open>__salt__\<close>\<close>

text \<open>
  The three functions of the execution module that the state module calls, with the
  arguments it passes positionally.
\<close>

datatype call =
    GrantExists pystr pystr pystr pystr bool bool
  | GrantRevoke pystr pystr pystr pystr bool
  | GrantAdd pystr pystr pystr pystr bool bool

fun is_mutation :: "call \<Rightarrow> bool" where
  "is_mutation (GrantExists p d u h g e) = False"
| "is_mutation (GrantRevoke p d u h g) = True"
| "is_mutation (GrantAdd p d u h g e) = True"

text \<open>
  The execution module is not part of this module: it is a parameter, a function from the
  call and the state of the database to the answer and the new state.
\<close>

type_synonym 'b salt = "call \<Rightarrow> 'b \<Rightarrow> pyval \<times> 'b"

record 'b world =
  backend :: 'b
  calls :: "call list"

definition invoke :: "'b salt \<Rightarrow> call \<Rightarrow> 'b world \<Rightarrow> pyval \<times> 'b world" where
  "invoke salt c w =
     (let (r, s) = salt c (backend w)
      in (r, \<lparr>backend = s, calls = calls w @ [c]\<rparr>))"

section \<open>The state functions\<close>

record ret =
  name :: string
  changes :: "string \<rightharpoonup> string"
  result :: "bool option"
  comment :: string

text \<open>Lines 86-87 and 170-171: the deprecated \<^verbatim>\<open>grant\<close> stands in for a missing \<^verbatim>\<open>privileges\<close>.\<close>

definition effective_privileges :: "pystr \<Rightarrow> pystr \<Rightarrow> pystr" where
  "effective_privileges privileges grant =
     (if privileges = None \<and> grant \<noteq> None then grant else privileges)"

text \<open>
  \<^verbatim>\<open>present\<close> and \<^verbatim>\<open>absent\<close> take the backend \<^verbatim>\<open>__salt__\<close> and the flag
  \<^verbatim>\<open>__opts__['test']\<close> as their first two arguments, then the arguments of the source in
  its order (\<open>nm\<close> is the argument \<^verbatim>\<open>name\<close>), then the world they run in. The local
  variable \<^verbatim>\<open>ret\<close> and the world are threaded through the branches as the source
  updates them. Each template with four fields is written as two literals, joined after
  its at sign.
\<close>

definition present ::
  "'b salt \<Rightarrow> bool \<Rightarrow> string \<Rightarrow> pystr \<Rightarrow> pystr \<Rightarrow> pystr \<Rightarrow> pystr \<Rightarrow> pystr \<Rightarrow> bool \<Rightarrow> bool
     \<Rightarrow> 'b world \<Rightarrow> ret \<times> 'b world" where
  "present salt test nm privileges grant database user host grant_option escape w =
     (let privileges = effective_privileges privileges grant;
          ret = \<lparr>name = nm, changes = Map.empty, result = Some True,
                 comment = py_format (''Grant {0} on {1} to {2}@'' @ ''{3} is already present'')
                             [privileges, database, user, host]\<rparr>;
          (grant_exists, w) =
             invoke salt (GrantExists privileges database user host grant_option escape) w
      in if grant_exists = PyBool True then (ret, w)
         else if test then
           (ret\<lparr>result := None,
                comment := py_format ''MySQL grant {0} is set to be created'' [Some nm]\<rparr>, w)
         else
           let (ret, w) =
                 (if grant_exists = PyNone then
                    (let (revoked, w) =
                           invoke salt (GrantRevoke (Some ''ALL PRIVILEGES'') database user host
                                          grant_option) w
                     in if revoked = PyBool False then
                          (ret\<lparr>comment :=
                                  py_format (''Failed to remove previous grant before applying new''
                                             @ '' grant: \"GRANT {0} ON {1} TO {2}@'' @ ''{3}\"'' @ '''')
                                    [privileges, database, user, host],
                               result := Some False\<rparr>, w)
                        else (ret, w))
                  else (ret, w));
               (added, w) =
                 invoke salt (GrantAdd privileges database user host grant_option escape) w
           in if truthy added then
                (ret\<lparr>comment := py_format (''Grant {0} on {1} to {2}@'' @ ''{3} has been added'')
                                   [privileges, database, user, host],
                     changes := (changes ret)(nm \<mapsto> ''Present'')\<rparr>, w)
              else
                (ret\<lparr>comment := py_format (''Failed to execute: \"GRANT {0} ON {1} TO {2}@'' @ ''{3}\"'')
                                   [privileges, database, user, host],
                     result := Some False\<rparr>, w))"

definition absent ::
  "'b salt \<Rightarrow> bool \<Rightarrow> string \<Rightarrow> pystr \<Rightarrow> pystr \<Rightarrow> pystr \<Rightarrow> pystr \<Rightarrow> pystr \<Rightarrow> bool \<Rightarrow> bool
     \<Rightarrow> 'b world \<Rightarrow> ret \<times> 'b world" where
  "absent salt test nm privileges grant database user host grant_option escape w =
     (let ret = \<lparr>name = nm, changes = Map.empty, result = Some True, comment = ''''\<rparr>;
          privileges = effective_privileges privileges grant;
          fallback = (\<lambda>w.
            (ret\<lparr>comment := py_format (''Grant {0} on {1} to {2}@'' @ ''{3} is not present, so it''
                                        @ '' cannot be revoked'')
                               [privileges, database, user, host]\<rparr>, w));
          (grant_exists, w) =
             invoke salt (GrantExists privileges database user host grant_option escape) w
      in if truthy grant_exists then
           (if test then
              (ret\<lparr>result := None,
                   comment := py_format ''MySQL grant {0} is set to be revoked'' [Some nm]\<rparr>, w)
            else
              let (revoked, w) =
                    invoke salt (GrantRevoke privileges database user host grant_option) w
              in if truthy revoked then
                   (ret\<lparr>comment := ''Grant {0} on {1} for {2}@'' @ ''{3} has been revoked'',
                        changes := (changes ret)(nm \<mapsto> ''Absent'')\<rparr>, w)
                 else fallback w)
         else fallback w)"

section \<open>Two backends to run the state functions on\<close>

text \<open>A backend that gives the same three answers whatever it is asked, and keeps no state.\<close>

fun const_salt :: "pyval \<Rightarrow> pyval \<Rightarrow> pyval \<Rightarrow> unit salt" where
  "const_salt ex rv ad (GrantExists p d u h g e) s = (ex, s)"
| "const_salt ex rv ad (GrantRevoke p d u h g) s = (rv, s)"
| "const_salt ex rv ad (GrantAdd p d u h g e) s = (ad, s)"

text \<open>A backend that keeps the grants it was given in a list.\<close>

type_synonym grant_row = "pystr \<times> pystr \<times> pystr \<times> pystr \<times> bool"

fun store_salt :: "grant_row list salt" where
  "store_salt (GrantExists p d u h g e) s = (PyBool ((p, d, u, h, g) \<in> set s), s)"
| "store_salt (GrantRevoke p d u h g) s =
     (PyBool ((p, d, u, h, g) \<in> set s), removeAll (p, d, u, h, g) s)"
| "store_salt (GrantAdd p d u h g e) s = (PyBool True, (p, d, u, h, g) # s)"

section \<open>The templates, formatted\<close>

lemma format_already_present:
  "py_format (''Grant {0} on {1} to {2}@'' @ ''{3} is already present'') [p, d, u, h] =
     ''Grant '' @ py_str p @ '' on '' @ py_str d @ '' to '' @ py_str u @ ''@'' @ py_str h
       @ '' is already present''"
  by (simp add: digit_of_def)

lemma format_to_be_created:
  "py_format ''MySQL grant {0} is set to be created'' [Some n] =
     ''MySQL grant '' @ n @ '' is set to be created''"
  by (simp add: digit_of_def)

lemma format_failed_remove:
  "py_format (''Failed to remove previous grant before applying new''
                @ '' grant: \"GRANT {0} ON {1} TO {2}@'' @ ''{3}\"'' @ '''')
     [p, d, u, h] =
     ''Failed to remove previous grant before applying new grant: \"GRANT '' @ py_str p
       @ '' ON '' @ py_str d @ '' TO '' @ py_str u @ ''@'' @ py_str h @ ''\"''"
  by (simp add: digit_of_def)

lemma format_added:
  "py_format (''Grant {0} on {1} to {2}@'' @ ''{3} has been added'') [p, d, u, h] =
     ''Grant '' @ py_str p @ '' on '' @ py_str d @ '' to '' @ py_str u @ ''@'' @ py_str h
       @ '' has been added''"
  by (simp add: digit_of_def)

lemma format_failed_execute:
  "py_format (''Failed to execute: \"GRANT {0} ON {1} TO {2}@'' @ ''{3}\"'') [p, d, u, h] =
     ''Failed to execute: \"GRANT '' @ py_str p @ '' ON '' @ py_str d @ '' TO '' @ py_str u
       @ ''@'' @ py_str h @ ''\"''"
  by (simp add: digit_of_def)

lemma format_to_be_revoked:
  "py_format ''MySQL grant {0} is set to be revoked'' [Some n] =
     ''MySQL grant '' @ n @ '' is set to be revoked''"
  by (simp add: digit_of_def)

lemma format_not_present:
  "py_format (''Grant {0} on {1} to {2}@'' @ ''{3} is not present, so it''
                @ '' cannot be revoked'')
     [p, d, u, h] =
     ''Grant '' @ py_str p @ '' on '' @ py_str d @ '' to '' @ py_str u @ ''@'' @ py_str h
       @ '' is not present, so it cannot be revoked''"
  by (simp add: digit_of_def)

lemma format_revoked:
  "py_format (''Grant {0} on {1} for {2}@'' @ ''{3} has been revoked'') [p, d, u, h] =
     ''Grant '' @ py_str p @ '' on '' @ py_str d @ '' for '' @ py_str u @ ''@'' @ py_str h
       @ '' has been revoked''"
  by (simp add: digit_of_def)

lemmas format_templates =
  format_already_present format_to_be_created format_failed_remove format_added
  format_failed_execute format_to_be_revoked format_not_present

declare py_format.simps [simp del]

section \<open>The paths through \<^verbatim>\<open>present\<close>\<close>

lemma present_path_exists:
  assumes "salt (GrantExists (effective_privileges privileges grant) database user host
                   grant_option escape) (backend w) = (PyBool True, s1)"
  shows "present salt test nm privileges grant database user host grant_option escape w =
     (\<lparr>name = nm, changes = Map.empty, result = Some True,
       comment = ''Grant '' @ py_str (effective_privileges privileges grant) @ '' on ''
                   @ py_str database @ '' to '' @ py_str user @ ''@'' @ py_str host
                   @ '' is already present''\<rparr>,
      \<lparr>backend = s1,
       calls = calls w @ [GrantExists (effective_privileges privileges grant) database user host
                            grant_option escape]\<rparr>)"
  using assms unfolding present_def format_templates by (simp add: invoke_def Let_def)

lemma present_path_test:
  assumes "salt (GrantExists (effective_privileges privileges grant) database user host
                   grant_option escape) (backend w) = (v, s1)"
    and "v \<noteq> PyBool True"
  shows "present salt True nm privileges grant database user host grant_option escape w =
     (\<lparr>name = nm, changes = Map.empty, result = None,
       comment = ''MySQL grant '' @ nm @ '' is set to be created''\<rparr>,
      \<lparr>backend = s1,
       calls = calls w @ [GrantExists (effective_privileges privileges grant) database user host
                            grant_option escape]\<rparr>)"
  using assms unfolding present_def format_templates by (simp add: invoke_def Let_def)

lemma present_path_add:
  assumes "salt (GrantExists (effective_privileges privileges grant) database user host
                   grant_option escape) (backend w) = (PyBool False, s1)"
    and "salt (GrantAdd (effective_privileges privileges grant) database user host
                 grant_option escape) s1 = (a, s2)"
  shows "present salt False nm privileges grant database user host grant_option escape w =
     ((if truthy a then
         \<lparr>name = nm, changes = [nm \<mapsto> ''Present''], result = Some True,
          comment = ''Grant '' @ py_str (effective_privileges privileges grant) @ '' on ''
                      @ py_str database @ '' to '' @ py_str user @ ''@'' @ py_str host
                      @ '' has been added''\<rparr>
       else
         \<lparr>name = nm, changes = Map.empty, result = Some False,
          comment = ''Failed to execute: \"GRANT '' @ py_str (effective_privileges privileges grant)
                      @ '' ON '' @ py_str database @ '' TO '' @ py_str user @ ''@''
                      @ py_str host @ ''\"''\<rparr>),
      \<lparr>backend = s2,
       calls = calls w @ [GrantExists (effective_privileges privileges grant) database user host
                            grant_option escape,
                          GrantAdd (effective_privileges privileges grant) database user host
                            grant_option escape]\<rparr>)"
  using assms unfolding present_def format_templates by (simp add: invoke_def Let_def)

lemma present_path_conflict:
  assumes "salt (GrantExists (effective_privileges privileges grant) database user host
                   grant_option escape) (backend w) = (PyNone, s1)"
    and "salt (GrantRevoke (Some ''ALL PRIVILEGES'') database user host grant_option) s1 = (r, s2)"
    and "salt (GrantAdd (effective_privileges privileges grant) database user host
                 grant_option escape) s2 = (a, s3)"
  shows "present salt False nm privileges grant database user host grant_option escape w =
     ((if truthy a then
         \<lparr>name = nm, changes = [nm \<mapsto> ''Present''],
          result = (if r = PyBool False then Some False else Some True),
          comment = ''Grant '' @ py_str (effective_privileges privileges grant) @ '' on ''
                      @ py_str database @ '' to '' @ py_str user @ ''@'' @ py_str host
                      @ '' has been added''\<rparr>
       else
         \<lparr>name = nm, changes = Map.empty, result = Some False,
          comment = ''Failed to execute: \"GRANT '' @ py_str (effective_privileges privileges grant)
                      @ '' ON '' @ py_str database @ '' TO '' @ py_str user @ ''@''
                      @ py_str host @ ''\"''\<rparr>),
      \<lparr>backend = s3,
       calls = calls w @ [GrantExists (effective_privileges privileges grant) database user host
                            grant_option escape,
                          GrantRevoke (Some ''ALL PRIVILEGES'') database user host grant_option,
                          GrantAdd (effective_privileges privileges grant) database user host
                            grant_option escape]\<rparr>)"
  using assms unfolding present_def format_templates by (simp add: invoke_def Let_def)

section \<open>The paths through \<^verbatim>\<open>absent\<close>\<close>

lemma absent_path_fallback:
  assumes "salt (GrantExists (effective_privileges privileges grant) database user host
                   grant_option escape) (backend w) = (v, s1)"
    and "\<not> truthy v"
  shows "absent salt test nm privileges grant database user host grant_option escape w =
     (\<lparr>name = nm, changes = Map.empty, result = Some True,
       comment = ''Grant '' @ py_str (effective_privileges privileges grant) @ '' on ''
                   @ py_str database @ '' to '' @ py_str user @ ''@'' @ py_str host
                   @ '' is not present, so it cannot be revoked''\<rparr>,
      \<lparr>backend = s1,
       calls = calls w @ [GrantExists (effective_privileges privileges grant) database user host
                            grant_option escape]\<rparr>)"
  using assms unfolding absent_def format_templates by (simp add: invoke_def Let_def)

lemma absent_path_test:
  assumes "salt (GrantExists (effective_privileges privileges grant) database user host
                   grant_option escape) (backend w) = (v, s1)"
    and "truthy v"
  shows "absent salt True nm privileges grant database user host grant_option escape w =
     (\<lparr>name = nm, changes = Map.empty, result = None,
       comment = ''MySQL grant '' @ nm @ '' is set to be revoked''\<rparr>,
      \<lparr>backend = s1,
       calls = calls w @ [GrantExists (effective_privileges privileges grant) database user host
                            grant_option escape]\<rparr>)"
  using assms unfolding absent_def format_templates by (simp add: invoke_def Let_def)

lemma absent_path_revoke:
  assumes "salt (GrantExists (effective_privileges privileges grant) database user host
                   grant_option escape) (backend w) = (v, s1)"
    and "truthy v"
    and "salt (GrantRevoke (effective_privileges privileges grant) database user host
                 grant_option) s1 = (r, s2)"
  shows "absent salt False nm privileges grant database user host grant_option escape w =
     ((if truthy r then
         \<lparr>name = nm, changes = [nm \<mapsto> ''Absent''], result = Some True,
          comment = ''Grant {0} on {1} for {2}@'' @ ''{3} has been revoked''\<rparr>
       else
         \<lparr>name = nm, changes = Map.empty, result = Some True,
          comment = ''Grant '' @ py_str (effective_privileges privileges grant) @ '' on ''
                      @ py_str database @ '' to '' @ py_str user @ ''@'' @ py_str host
                      @ '' is not present, so it cannot be revoked''\<rparr>),
      \<lparr>backend = s2,
       calls = calls w @ [GrantExists (effective_privileges privileges grant) database user host
                            grant_option escape,
                          GrantRevoke (effective_privileges privileges grant) database user host
                            grant_option]\<rparr>)"
  using assms unfolding absent_def format_templates by (simp add: invoke_def Let_def)

lemma effective_privileges_Some: "effective_privileges (Some p) g = Some p"
  by (simp add: effective_privileges_def)

lemma effective_privileges_None: "effective_privileges None g = g"
  by (cases g) (simp_all add: effective_privileges_def)

section \<open>Claims about \<^verbatim>\<open>present\<close>\<close>

text \<open>
  C1. Outside dry-run mode, when the existence check answers \<^verbatim>\<open>None\<close>, \<^verbatim>\<open>present\<close>
  calls the backend three times and no more: the existence check, then one
  \<^verbatim>\<open>grant_revoke\<close> with \<^verbatim>\<open>"ALL PRIVILEGES"\<close> and the database, user, host and grant option
  of the spec, then \<^verbatim>\<open>grant_add\<close>, whatever the revoke answered. So the mutation calls
  are exactly that one revoke followed by that one add.
\<close>

theorem present_conflict_revokes_all_then_adds:
  assumes "p = effective_privileges privileges grant"
    and "salt (GrantExists p database user host grant_option escape) (backend w) = (PyNone, s1)"
    and "salt (GrantRevoke (Some ''ALL PRIVILEGES'') database user host grant_option) s1 = (r, s2)"
  shows "snd (present salt False nm privileges grant database user host grant_option escape w) =
           \<lparr>backend = snd (salt (GrantAdd p database user host grant_option escape) s2),
            calls = calls w @
              [GrantExists p database user host grant_option escape,
               GrantRevoke (Some ''ALL PRIVILEGES'') database user host grant_option,
               GrantAdd p database user host grant_option escape]\<rparr>
       \<and> filter is_mutation
           (calls (snd (present salt False nm privileges grant database user host grant_option
                          escape w))) =
         filter is_mutation (calls w) @
           [GrantRevoke (Some ''ALL PRIVILEGES'') database user host grant_option,
            GrantAdd p database user host grant_option escape]"
proof -
  obtain a s3 where add: "salt (GrantAdd p database user host grant_option escape) s2 = (a, s3)"
    by (cases "salt (GrantAdd p database user host grant_option escape) s2")
  from assms add have
    "snd (present salt False nm privileges grant database user host grant_option escape w) =
           \<lparr>backend = snd (salt (GrantAdd p database user host grant_option escape) s2),
            calls = calls w @
              [GrantExists p database user host grant_option escape,
               GrantRevoke (Some ''ALL PRIVILEGES'') database user host grant_option,
               GrantAdd p database user host grant_option escape]\<rparr>"
    by (simp add: present_path_conflict)
  then show ?thesis by simp
qed

theorem present_conflict_revokes_all_then_adds_witness:
  "calls (snd (present (const_salt PyNone (PyBool False) (PyBool True)) False ''frank_exampledb''
                 None (Some ''select,insert'') (Some ''exampledb.*'') (Some ''frank'')
                 (Some ''localhost'') False True \<lparr>backend = (), calls = []\<rparr>)) =
     [GrantExists (Some ''select,insert'') (Some ''exampledb.*'') (Some ''frank'')
        (Some ''localhost'') False True,
      GrantRevoke (Some ''ALL PRIVILEGES'') (Some ''exampledb.*'') (Some ''frank'')
        (Some ''localhost'') False,
      GrantAdd (Some ''select,insert'') (Some ''exampledb.*'') (Some ''frank'')
        (Some ''localhost'') False True]"
  using present_conflict_revokes_all_then_adds
    [where p = "Some ''select,insert''" and privileges = None and grant = "Some ''select,insert''"
       and salt = "const_salt PyNone (PyBool False) (PyBool True)"
       and database = "Some ''exampledb.*''" and user = "Some ''frank''"
       and host = "Some ''localhost''" and grant_option = False and escape = True
       and w = "\<lparr>backend = (), calls = []\<rparr>" and ?s1.0 = "()" and r = "PyBool False"
       and ?s2.0 = "()" and nm = "''frank_exampledb''"]
  by (simp add: effective_privileges_def)

text \<open>
  C6. When the existence check answers \<^verbatim>\<open>True\<close>, \<^verbatim>\<open>present\<close> returns at once, in
  either mode: the only backend call is the existence check, \<^verbatim>\<open>changes\<close> is empty,
  \<^verbatim>\<open>result\<close> is \<^verbatim>\<open>True\<close> and the comment contains "already present".
\<close>

theorem present_already_present_noop:
  assumes "p = effective_privileges privileges grant"
    and "salt (GrantExists p database user host grant_option escape) (backend w) = (PyBool True, s1)"
  shows "present salt test nm privileges grant database user host grant_option escape w =
           (\<lparr>name = nm, changes = Map.empty, result = Some True,
             comment = ''Grant '' @ py_str p @ '' on '' @ py_str database @ '' to ''
                        @ py_str user @ ''@'' @ py_str host @ '' is already present''\<rparr>,
            \<lparr>backend = s1,
             calls = calls w @ [GrantExists p database user host grant_option escape]\<rparr>)
       \<and> sublist ''already present''
           (comment (fst (present salt test nm privileges grant database user host grant_option
                            escape w)))
       \<and> filter is_mutation
           (calls (snd (present salt test nm privileges grant database user host grant_option
                          escape w))) =
         filter is_mutation (calls w)"
proof -
  have "sublist ''already present''
          ((''Grant '' @ py_str p @ '' on '' @ py_str database @ '' to '' @ py_str user @ ''@''
              @ py_str host @ '' is '') @ ''already present'')"
    by (rule sublist_append_leftI)
  with assms show ?thesis
    by (simp add: present_path_exists)
qed

theorem present_already_present_noop_witness:
  "present (const_salt (PyBool True) PyNone PyNone) False ''frank_exampledb''
     (Some ''select,insert'') None (Some ''exampledb.*'') (Some ''frank'') (Some ''localhost'')
     False True \<lparr>backend = (), calls = []\<rparr> =
   (\<lparr>name = ''frank_exampledb'', changes = Map.empty, result = Some True,
     comment = ''Grant select,insert on exampledb.* to frank@localhost is already present''\<rparr>,
    \<lparr>backend = (),
     calls = [GrantExists (Some ''select,insert'') (Some ''exampledb.*'') (Some ''frank'')
                (Some ''localhost'') False True]\<rparr>)"
  using present_already_present_noop
    [where p = "Some ''select,insert''" and privileges = "Some ''select,insert''" and grant = None
       and salt = "const_salt (PyBool True) PyNone PyNone"
       and database = "Some ''exampledb.*''" and user = "Some ''frank''"
       and host = "Some ''localhost''" and grant_option = False and escape = True
       and w = "\<lparr>backend = (), calls = []\<rparr>" and ?s1.0 = "()" and test = False
       and nm = "''frank_exampledb''"]
  by (simp add: effective_privileges_def)

text \<open>
  C7. Outside dry-run mode, when the existence check answers \<^verbatim>\<open>False\<close>, \<^verbatim>\<open>present\<close>
  calls \<^verbatim>\<open>grant_add\<close>. If the add succeeds, \<^verbatim>\<open>changes\<close> maps the name to "Present",
  \<^verbatim>\<open>result\<close> is \<^verbatim>\<open>True\<close> and the comment contains "added". If it fails, \<^verbatim>\<open>result\<close>
  is \<^verbatim>\<open>False\<close>, the comment is the "Failed to execute" message and \<^verbatim>\<open>changes\<close> is empty.
\<close>

theorem present_missing_grant_is_added:
  assumes "p = effective_privileges privileges grant"
    and "salt (GrantExists p database user host grant_option escape) (backend w) = (PyBool False, s1)"
    and "salt (GrantAdd p database user host grant_option escape) s1 = (a, s2)"
    and "r = fst (present salt False nm privileges grant database user host grant_option escape w)"
  shows "(truthy a \<longrightarrow>
            changes r = [nm \<mapsto> ''Present''] \<and> result r = Some True
            \<and> comment r = ''Grant '' @ py_str p @ '' on '' @ py_str database @ '' to ''
                            @ py_str user @ ''@'' @ py_str host @ '' has been added''
            \<and> sublist ''added'' (comment r))
       \<and> (\<not> truthy a \<longrightarrow>
            changes r = Map.empty \<and> result r = Some False
            \<and> comment r = ''Failed to execute: \"GRANT '' @ py_str p @ '' ON '' @ py_str database
                            @ '' TO '' @ py_str user @ ''@'' @ py_str host @ ''\"'')"
proof -
  have "sublist ''added''
          ((''Grant '' @ py_str p @ '' on '' @ py_str database @ '' to '' @ py_str user @ ''@''
              @ py_str host @ '' has been '') @ ''added'')"
    by (rule sublist_append_leftI)
  with assms show ?thesis
    by (simp add: present_path_add)
qed

theorem present_missing_grant_is_added_witness:
  "changes (fst (present (const_salt (PyBool False) PyNone (PyBool True)) False
                   ''frank_exampledb'' (Some ''select,insert'') None (Some ''exampledb.*'')
                   (Some ''frank'') (Some ''localhost'') False True
                   \<lparr>backend = (), calls = []\<rparr>)) = [''frank_exampledb'' \<mapsto> ''Present'']
   \<and> comment (fst (present (const_salt (PyBool False) PyNone (PyBool True)) False
                   ''frank_exampledb'' (Some ''select,insert'') None (Some ''exampledb.*'')
                   (Some ''frank'') (Some ''localhost'') False True
                   \<lparr>backend = (), calls = []\<rparr>)) =
       ''Grant select,insert on exampledb.* to frank@localhost has been added''
   \<and> result (fst (present (const_salt (PyBool False) PyNone (PyBool False)) False
                    ''frank_exampledb'' (Some ''select,insert'') None (Some ''exampledb.*'')
                    (Some ''frank'') (Some ''localhost'') False True
                    \<lparr>backend = (), calls = []\<rparr>)) = Some False"
  using present_missing_grant_is_added
    [where p = "Some ''select,insert''" and privileges = "Some ''select,insert''" and grant = None
       and salt = "const_salt (PyBool False) PyNone (PyBool True)"
       and database = "Some ''exampledb.*''" and user = "Some ''frank''"
       and host = "Some ''localhost''" and grant_option = False and escape = True
       and w = "\<lparr>backend = (), calls = []\<rparr>" and ?s1.0 = "()" and a = "PyBool True"
       and ?s2.0 = "()" and nm = "''frank_exampledb''", OF _ _ _ refl]
    present_missing_grant_is_added
    [where p = "Some ''select,insert''" and privileges = "Some ''select,insert''" and grant = None
       and salt = "const_salt (PyBool False) PyNone (PyBool False)"
       and database = "Some ''exampledb.*''" and user = "Some ''frank''"
       and host = "Some ''localhost''" and grant_option = False and escape = True
       and w = "\<lparr>backend = (), calls = []\<rparr>" and ?s1.0 = "()" and a = "PyBool False"
       and ?s2.0 = "()" and nm = "''frank_exampledb''", OF _ _ _ refl]
  by (simp add: effective_privileges_def)

text \<open>
  C10. Outside dry-run mode, when the existence check answers \<^verbatim>\<open>None\<close>, the corrective
  revoke answers \<^verbatim>\<open>False\<close> and the add succeeds, the returned record has \<^verbatim>\<open>result\<close>
  \<^verbatim>\<open>False\<close> together with \<^verbatim>\<open>changes\<close> mapping the name to "Present" and the comment
  "... has been added".
\<close>

theorem present_failed_revoke_then_added:
  assumes "p = effective_privileges privileges grant"
    and "salt (GrantExists p database user host grant_option escape) (backend w) = (PyNone, s1)"
    and "salt (GrantRevoke (Some ''ALL PRIVILEGES'') database user host grant_option) s1 =
           (PyBool False, s2)"
    and "salt (GrantAdd p database user host grant_option escape) s2 = (a, s3)"
    and "truthy a"
  shows "fst (present salt False nm privileges grant database user host grant_option escape w) =
           \<lparr>name = nm, changes = [nm \<mapsto> ''Present''], result = Some False,
            comment = ''Grant '' @ py_str p @ '' on '' @ py_str database @ '' to ''
                        @ py_str user @ ''@'' @ py_str host @ '' has been added''\<rparr>
       \<and> sublist ''has been added''
           (comment (fst (present salt False nm privileges grant database user host grant_option
                            escape w)))"
proof -
  have "sublist ''has been added''
          ((''Grant '' @ py_str p @ '' on '' @ py_str database @ '' to '' @ py_str user @ ''@''
              @ py_str host @ '' '') @ ''has been added'')"
    by (rule sublist_append_leftI)
  with assms show ?thesis
    by (simp add: present_path_conflict)
qed

theorem present_failed_revoke_then_added_witness:
  "fst (present (const_salt PyNone (PyBool False) (PyBool True)) False ''frank_exampledb''
          (Some ''select,insert'') None (Some ''exampledb.*'') (Some ''frank'')
          (Some ''localhost'') False True \<lparr>backend = (), calls = []\<rparr>) =
     \<lparr>name = ''frank_exampledb'', changes = [''frank_exampledb'' \<mapsto> ''Present''],
      result = Some False,
      comment = ''Grant select,insert on exampledb.* to frank@localhost has been added''\<rparr>"
  using present_failed_revoke_then_added
    [where p = "Some ''select,insert''" and privileges = "Some ''select,insert''" and grant = None
       and salt = "const_salt PyNone (PyBool False) (PyBool True)"
       and database = "Some ''exampledb.*''" and user = "Some ''frank''"
       and host = "Some ''localhost''" and grant_option = False and escape = True
       and w = "\<lparr>backend = (), calls = []\<rparr>" and ?s1.0 = "()" and a = "PyBool True"
       and ?s2.0 = "()" and ?s3.0 = "()" and nm = "''frank_exampledb''"]
  by (simp add: effective_privileges_def)

text \<open>
  C5. Against a backend on which the grant is missing at first (the existence check
  answers \<^verbatim>\<open>False\<close>), on which \<^verbatim>\<open>grant_add\<close> then succeeds, and on which the
  existence check answers \<^verbatim>\<open>True\<close> after that add, two calls of \<^verbatim>\<open>present\<close> with the
  same spec give: first a change (\<^verbatim>\<open>changes\<close> maps the name to "Present"), then a no-op
  (\<^verbatim>\<open>changes\<close> empty, \<^verbatim>\<open>result\<close> \<^verbatim>\<open>True\<close>, no further mutation call).
\<close>

theorem present_twice_converges:
  assumes "p = effective_privileges privileges grant"
    and "salt (GrantExists p database user host grant_option escape) (backend w) = (PyBool False, s1)"
    and "salt (GrantAdd p database user host grant_option escape) s1 = (a, s2)"
    and "truthy a"
    and "salt (GrantExists p database user host grant_option escape) s2 = (PyBool True, s3)"
    and "first = present salt False nm privileges grant database user host grant_option escape w"
    and "second =
           present salt False nm privileges grant database user host grant_option escape (snd first)"
  shows "changes (fst first) = [nm \<mapsto> ''Present''] \<and> changes (fst first) \<noteq> Map.empty
       \<and> result (fst first) = Some True
       \<and> changes (fst second) = Map.empty \<and> result (fst second) = Some True
       \<and> sublist ''already present'' (comment (fst second))
       \<and> calls (snd second) =
           calls (snd first) @ [GrantExists p database user host grant_option escape]"
proof -
  have one: "first =
      (\<lparr>name = nm, changes = [nm \<mapsto> ''Present''], result = Some True,
        comment = ''Grant '' @ py_str p @ '' on '' @ py_str database @ '' to '' @ py_str user
                    @ ''@'' @ py_str host @ '' has been added''\<rparr>,
       \<lparr>backend = s2,
        calls = calls w @ [GrantExists p database user host grant_option escape,
                           GrantAdd p database user host grant_option escape]\<rparr>)"
    using assms(1-4,6) by (simp add: present_path_add)
  have two: "second =
      (\<lparr>name = nm, changes = Map.empty, result = Some True,
        comment = ''Grant '' @ py_str p @ '' on '' @ py_str database @ '' to '' @ py_str user
                    @ ''@'' @ py_str host @ '' is already present''\<rparr>,
       \<lparr>backend = s3,
        calls = calls (snd first) @ [GrantExists p database user host grant_option escape]\<rparr>)"
    using assms(1,5,7) unfolding one by (simp add: present_path_exists)
  have sub: "sublist ''already present''
          ((''Grant '' @ py_str p @ '' on '' @ py_str database @ '' to '' @ py_str user @ ''@''
              @ py_str host @ '' is '') @ ''already present'')"
    by (rule sublist_append_leftI)
  have "[nm \<mapsto> ''Present''] \<noteq> Map.empty"
    by simp
  with sub show ?thesis
    unfolding two unfolding one by simp
qed

theorem present_twice_converges_witness:
  "changes (fst (present store_salt False ''frank_exampledb'' (Some ''select,insert'') None
                   (Some ''exampledb.*'') (Some ''frank'') (Some ''localhost'') False True
                   \<lparr>backend = [], calls = []\<rparr>)) = [''frank_exampledb'' \<mapsto> ''Present'']
   \<and> changes (fst (present store_salt False ''frank_exampledb'' (Some ''select,insert'') None
                   (Some ''exampledb.*'') (Some ''frank'') (Some ''localhost'') False True
                   (snd (present store_salt False ''frank_exampledb'' (Some ''select,insert'') None
                           (Some ''exampledb.*'') (Some ''frank'') (Some ''localhost'') False True
                           \<lparr>backend = [], calls = []\<rparr>)))) = Map.empty"
  using present_twice_converges
    [where p = "Some ''select,insert''" and privileges = "Some ''select,insert''" and grant = None
       and salt = store_salt
       and database = "Some ''exampledb.*''" and user = "Some ''frank''"
       and host = "Some ''localhost''" and grant_option = False and escape = True
       and w = "\<lparr>backend = [], calls = []\<rparr>" and ?s1.0 = "[]" and a = "PyBool True"
       and ?s2.0 = "[(Some ''select,insert'', Some ''exampledb.*'', Some ''frank'',
                      Some ''localhost'', False)]"
       and ?s3.0 = "[(Some ''select,insert'', Some ''exampledb.*'', Some ''frank'',
                      Some ''localhost'', False)]"
       and nm = "''frank_exampledb''", OF _ _ _ _ _ refl refl]
  by (simp add: effective_privileges_def)

section \<open>Which privileges reach the backend and the comment\<close>

lemma present_uses_effective_privileges:
  assumes "p = effective_privileges privileges grant"
    and "R = present salt test nm privileges grant database user host grant_option escape w"
  shows "take (Suc (length (calls w))) (calls (snd R)) =
           calls w @ [GrantExists p database user host grant_option escape]
       \<and> set (drop (Suc (length (calls w))) (calls (snd R))) \<subseteq>
           {GrantRevoke (Some ''ALL PRIVILEGES'') database user host grant_option,
            GrantAdd p database user host grant_option escape}
       \<and> comment (fst R) \<in>
           {''Grant '' @ py_str p @ '' on '' @ py_str database @ '' to '' @ py_str user @ ''@''
              @ py_str host @ '' is already present'',
            ''MySQL grant '' @ nm @ '' is set to be created'',
            ''Grant '' @ py_str p @ '' on '' @ py_str database @ '' to '' @ py_str user @ ''@''
              @ py_str host @ '' has been added'',
            ''Failed to execute: \"GRANT '' @ py_str p @ '' ON '' @ py_str database @ '' TO ''
              @ py_str user @ ''@'' @ py_str host @ ''\"''}"
proof -
  obtain v s1 where ex:
    "salt (GrantExists (effective_privileges privileges grant) database user host grant_option
             escape) (backend w) = (v, s1)"
    by (cases "salt (GrantExists (effective_privileges privileges grant) database user host
                       grant_option escape) (backend w)")
  obtain r s2 where rv:
    "salt (GrantRevoke (Some ''ALL PRIVILEGES'') database user host grant_option) s1 = (r, s2)"
    by (cases "salt (GrantRevoke (Some ''ALL PRIVILEGES'') database user host grant_option) s1")
  obtain a s3 where ad:
    "salt (GrantAdd (effective_privileges privileges grant) database user host grant_option
             escape) s2 = (a, s3)"
    by (cases "salt (GrantAdd (effective_privileges privileges grant) database user host
                       grant_option escape) s2")
  obtain b s4 where ad':
    "salt (GrantAdd (effective_privileges privileges grant) database user host grant_option
             escape) s1 = (b, s4)"
    by (cases "salt (GrantAdd (effective_privileges privileges grant) database user host
                       grant_option escape) s1")
  consider (there) "v = PyBool True"
    | (dry) "v \<noteq> PyBool True" "test"
    | (conflict) "v = PyNone" "\<not> test"
    | (missing) "v = PyBool False" "\<not> test"
    by (cases v) auto
  then show ?thesis
  proof cases
    case there
    with ex assms show ?thesis
      by (simp add: present_path_exists)
  next
    case dry
    with ex assms show ?thesis
      by (simp add: present_path_test)
  next
    case conflict
    with ex rv ad assms show ?thesis
      by (simp add: present_path_conflict)
  next
    case missing
    with ex ad' assms show ?thesis
      by (simp add: present_path_add)
  qed
qed

lemma absent_uses_effective_privileges:
  assumes "p = effective_privileges privileges grant"
    and "R = absent salt test nm privileges grant database user host grant_option escape w"
  shows "take (Suc (length (calls w))) (calls (snd R)) =
           calls w @ [GrantExists p database user host grant_option escape]
       \<and> set (drop (Suc (length (calls w))) (calls (snd R))) \<subseteq>
           {GrantRevoke p database user host grant_option}
       \<and> comment (fst R) \<in>
           {''MySQL grant '' @ nm @ '' is set to be revoked'',
            ''Grant {0} on {1} for {2}@'' @ ''{3} has been revoked'',
            ''Grant '' @ py_str p @ '' on '' @ py_str database @ '' to '' @ py_str user @ ''@''
              @ py_str host @ '' is not present, so it cannot be revoked''}"
proof -
  obtain v s1 where ex:
    "salt (GrantExists (effective_privileges privileges grant) database user host grant_option
             escape) (backend w) = (v, s1)"
    by (cases "salt (GrantExists (effective_privileges privileges grant) database user host
                       grant_option escape) (backend w)")
  obtain r s2 where rv:
    "salt (GrantRevoke (effective_privileges privileges grant) database user host grant_option)
       s1 = (r, s2)"
    by (cases "salt (GrantRevoke (effective_privileges privileges grant) database user host
                       grant_option) s1")
  consider (missing) "\<not> truthy v"
    | (dry) "truthy v" "test"
    | (revoke) "truthy v" "\<not> test"
    by auto
  then show ?thesis
  proof cases
    case missing
    with ex assms show ?thesis
      by (simp add: absent_path_fallback)
  next
    case dry
    with ex assms show ?thesis
      by (simp add: absent_path_test)
  next
    case revoke
    with ex rv assms show ?thesis
      by (simp add: absent_path_revoke)
  qed
qed

text \<open>
  C8. The deprecated \<^verbatim>\<open>grant\<close> is used only where \<^verbatim>\<open>privileges\<close> is \<^verbatim>\<open>None\<close>. A call
  with \<^verbatim>\<open>grant=g\<close> and no \<^verbatim>\<open>privileges\<close> returns the same record and leaves the same
  backend state and call trace as the call with \<^verbatim>\<open>privileges=g\<close>, and \<open>g\<close> is the value
  that is used: the first backend call is \<^verbatim>\<open>grant_exists\<close> with \<open>g\<close>, every later call
  is a revoke or add for \<open>g\<close> (or, in \<^verbatim>\<open>present\<close>, the corrective revoke of
  \<^verbatim>\<open>"ALL PRIVILEGES"\<close>), and the comment is one of the module's messages with \<open>g\<close> in
  the place of the privileges. Once \<^verbatim>\<open>privileges=p\<close> is given, the value of \<^verbatim>\<open>grant\<close>
  makes no difference, and \<open>p\<close> is the value used in the same sense. This holds for
  \<^verbatim>\<open>present\<close> and for \<^verbatim>\<open>absent\<close>.
\<close>

theorem grant_is_alias_of_privileges:
  assumes "Pg = present salt test nm None (Some g) database user host grant_option escape w"
    and "Ag = absent salt test nm None (Some g) database user host grant_option escape w"
    and "Pp = present salt test nm (Some p) grant database user host grant_option escape w"
    and "Ap = absent salt test nm (Some p) grant database user host grant_option escape w"
  shows "Pg = present salt test nm (Some g) None database user host grant_option escape w
       \<and> Ag = absent salt test nm (Some g) None database user host grant_option escape w
       \<and> Pp = present salt test nm (Some p) None database user host grant_option escape w
       \<and> Ap = absent salt test nm (Some p) None database user host grant_option escape w
       \<and> take (Suc (length (calls w))) (calls (snd Pg)) =
           calls w @ [GrantExists (Some g) database user host grant_option escape]
       \<and> set (drop (Suc (length (calls w))) (calls (snd Pg))) \<subseteq>
           {GrantRevoke (Some ''ALL PRIVILEGES'') database user host grant_option,
            GrantAdd (Some g) database user host grant_option escape}
       \<and> comment (fst Pg) \<in>
           {''Grant '' @ g @ '' on '' @ py_str database @ '' to '' @ py_str user @ ''@''
              @ py_str host @ '' is already present'',
            ''MySQL grant '' @ nm @ '' is set to be created'',
            ''Grant '' @ g @ '' on '' @ py_str database @ '' to '' @ py_str user @ ''@''
              @ py_str host @ '' has been added'',
            ''Failed to execute: \"GRANT '' @ g @ '' ON '' @ py_str database @ '' TO ''
              @ py_str user @ ''@'' @ py_str host @ ''\"''}
       \<and> take (Suc (length (calls w))) (calls (snd Ag)) =
           calls w @ [GrantExists (Some g) database user host grant_option escape]
       \<and> set (drop (Suc (length (calls w))) (calls (snd Ag))) \<subseteq>
           {GrantRevoke (Some g) database user host grant_option}
       \<and> comment (fst Ag) \<in>
           {''MySQL grant '' @ nm @ '' is set to be revoked'',
            ''Grant {0} on {1} for {2}@'' @ ''{3} has been revoked'',
            ''Grant '' @ g @ '' on '' @ py_str database @ '' to '' @ py_str user @ ''@''
              @ py_str host @ '' is not present, so it cannot be revoked''}
       \<and> take (Suc (length (calls w))) (calls (snd Pp)) =
           calls w @ [GrantExists (Some p) database user host grant_option escape]
       \<and> set (drop (Suc (length (calls w))) (calls (snd Pp))) \<subseteq>
           {GrantRevoke (Some ''ALL PRIVILEGES'') database user host grant_option,
            GrantAdd (Some p) database user host grant_option escape}
       \<and> comment (fst Pp) \<in>
           {''Grant '' @ p @ '' on '' @ py_str database @ '' to '' @ py_str user @ ''@''
              @ py_str host @ '' is already present'',
            ''MySQL grant '' @ nm @ '' is set to be created'',
            ''Grant '' @ p @ '' on '' @ py_str database @ '' to '' @ py_str user @ ''@''
              @ py_str host @ '' has been added'',
            ''Failed to execute: \"GRANT '' @ p @ '' ON '' @ py_str database @ '' TO ''
              @ py_str user @ ''@'' @ py_str host @ ''\"''}
       \<and> take (Suc (length (calls w))) (calls (snd Ap)) =
           calls w @ [GrantExists (Some p) database user host grant_option escape]
       \<and> set (drop (Suc (length (calls w))) (calls (snd Ap))) \<subseteq>
           {GrantRevoke (Some p) database user host grant_option}
       \<and> comment (fst Ap) \<in>
           {''MySQL grant '' @ nm @ '' is set to be revoked'',
            ''Grant {0} on {1} for {2}@'' @ ''{3} has been revoked'',
            ''Grant '' @ p @ '' on '' @ py_str database @ '' to '' @ py_str user @ ''@''
              @ py_str host @ '' is not present, so it cannot be revoked''}"
proof -
  have eqs:
    "Pg = present salt test nm (Some g) None database user host grant_option escape w"
    "Ag = absent salt test nm (Some g) None database user host grant_option escape w"
    "Pp = present salt test nm (Some p) None database user host grant_option escape w"
    "Ap = absent salt test nm (Some p) None database user host grant_option escape w"
    unfolding assms present_def absent_def effective_privileges_Some effective_privileges_None
    by (rule refl)+
  have eg: "Some g = effective_privileges None (Some g)"
    and ep: "Some p = effective_privileges (Some p) grant"
    by (simp_all add: effective_privileges_def)
  note pg = present_uses_effective_privileges [OF eg assms(1)]
    and ag = absent_uses_effective_privileges [OF eg assms(2)]
    and pp = present_uses_effective_privileges [OF ep assms(3)]
    and ap = absent_uses_effective_privileges [OF ep assms(4)]
  from pg have pg': "take (Suc (length (calls w))) (calls (snd Pg)) =
           calls w @ [GrantExists (Some g) database user host grant_option escape]
       \<and> set (drop (Suc (length (calls w))) (calls (snd Pg))) \<subseteq>
           {GrantRevoke (Some ''ALL PRIVILEGES'') database user host grant_option,
            GrantAdd (Some g) database user host grant_option escape}
       \<and> comment (fst Pg) \<in>
           {''Grant '' @ g @ '' on '' @ py_str database @ '' to '' @ py_str user @ ''@''
              @ py_str host @ '' is already present'',
            ''MySQL grant '' @ nm @ '' is set to be created'',
            ''Grant '' @ g @ '' on '' @ py_str database @ '' to '' @ py_str user @ ''@''
              @ py_str host @ '' has been added'',
            ''Failed to execute: \"GRANT '' @ g @ '' ON '' @ py_str database @ '' TO ''
              @ py_str user @ ''@'' @ py_str host @ ''\"''}"
    by simp
  from ag have ag': "take (Suc (length (calls w))) (calls (snd Ag)) =
           calls w @ [GrantExists (Some g) database user host grant_option escape]
       \<and> set (drop (Suc (length (calls w))) (calls (snd Ag))) \<subseteq>
           {GrantRevoke (Some g) database user host grant_option}
       \<and> comment (fst Ag) \<in>
           {''MySQL grant '' @ nm @ '' is set to be revoked'',
            ''Grant {0} on {1} for {2}@'' @ ''{3} has been revoked'',
            ''Grant '' @ g @ '' on '' @ py_str database @ '' to '' @ py_str user @ ''@''
              @ py_str host @ '' is not present, so it cannot be revoked''}"
    by simp
  from pp have pp': "take (Suc (length (calls w))) (calls (snd Pp)) =
           calls w @ [GrantExists (Some p) database user host grant_option escape]
       \<and> set (drop (Suc (length (calls w))) (calls (snd Pp))) \<subseteq>
           {GrantRevoke (Some ''ALL PRIVILEGES'') database user host grant_option,
            GrantAdd (Some p) database user host grant_option escape}
       \<and> comment (fst Pp) \<in>
           {''Grant '' @ p @ '' on '' @ py_str database @ '' to '' @ py_str user @ ''@''
              @ py_str host @ '' is already present'',
            ''MySQL grant '' @ nm @ '' is set to be created'',
            ''Grant '' @ p @ '' on '' @ py_str database @ '' to '' @ py_str user @ ''@''
              @ py_str host @ '' has been added'',
            ''Failed to execute: \"GRANT '' @ p @ '' ON '' @ py_str database @ '' TO ''
              @ py_str user @ ''@'' @ py_str host @ ''\"''}"
    by simp
  from ap have ap': "take (Suc (length (calls w))) (calls (snd Ap)) =
           calls w @ [GrantExists (Some p) database user host grant_option escape]
       \<and> set (drop (Suc (length (calls w))) (calls (snd Ap))) \<subseteq>
           {GrantRevoke (Some p) database user host grant_option}
       \<and> comment (fst Ap) \<in>
           {''MySQL grant '' @ nm @ '' is set to be revoked'',
            ''Grant {0} on {1} for {2}@'' @ ''{3} has been revoked'',
            ''Grant '' @ p @ '' on '' @ py_str database @ '' to '' @ py_str user @ ''@''
              @ py_str host @ '' is not present, so it cannot be revoked''}"
    by simp
  from eqs pg' ag' pp' ap' show ?thesis
    by (intro conjI) (erule conjunct1 conjunct2 | assumption | drule conjunct2)+
qed

theorem grant_is_alias_of_privileges_witness:
  "present (const_salt (PyBool False) PyNone (PyBool True)) False ''frank_exampledb''
     None (Some ''select'') (Some ''exampledb.*'') (Some ''frank'') (Some ''localhost'')
     False True \<lparr>backend = (), calls = []\<rparr> =
   present (const_salt (PyBool False) PyNone (PyBool True)) False ''frank_exampledb''
     (Some ''select'') None (Some ''exampledb.*'') (Some ''frank'') (Some ''localhost'')
     False True \<lparr>backend = (), calls = []\<rparr>
   \<and> take (Suc 0)
        (calls (snd (present (const_salt (PyBool False) PyNone (PyBool True)) False
                       ''frank_exampledb'' None (Some ''select'') (Some ''exampledb.*'')
                       (Some ''frank'') (Some ''localhost'') False True
                       \<lparr>backend = (), calls = []\<rparr>))) =
       [GrantExists (Some ''select'') (Some ''exampledb.*'') (Some ''frank'')
          (Some ''localhost'') False True]
   \<and> take (Suc 0)
        (calls (snd (absent (const_salt (PyBool False) PyNone (PyBool True)) False
                       ''frank_exampledb'' (Some ''select,insert'') (Some ''all privileges'')
                       (Some ''exampledb.*'') (Some ''frank'') (Some ''localhost'') False True
                       \<lparr>backend = (), calls = []\<rparr>))) =
       [GrantExists (Some ''select,insert'') (Some ''exampledb.*'') (Some ''frank'')
          (Some ''localhost'') False True]"
  using grant_is_alias_of_privileges
    [where salt = "const_salt (PyBool False) PyNone (PyBool True)" and test = False
       and nm = "''frank_exampledb''" and g = "''select''" and p = "''select,insert''"
       and grant = "Some ''all privileges''"
       and database = "Some ''exampledb.*''" and user = "Some ''frank''"
       and host = "Some ''localhost''" and grant_option = False and escape = True
       and w = "\<lparr>backend = (), calls = []\<rparr>", OF refl refl refl refl]
  by (simp (no_asm_use)) blast

section \<open>Claims about \<^verbatim>\<open>absent\<close>\<close>

text \<open>
  C3. Outside dry-run mode, when the existence check answers \<^verbatim>\<open>True\<close> and the
  \<^verbatim>\<open>grant_revoke\<close> call fails, \<^verbatim>\<open>absent\<close> falls through to the closing comment
  "... is not present, so it cannot be revoked", with \<^verbatim>\<open>result\<close> still \<^verbatim>\<open>True\<close> and
  \<^verbatim>\<open>changes\<close> empty.
\<close>

theorem absent_failed_revoke_reports_not_present:
  assumes "p = effective_privileges privileges grant"
    and "salt (GrantExists p database user host grant_option escape) (backend w) = (PyBool True, s1)"
    and "salt (GrantRevoke p database user host grant_option) s1 = (PyBool False, s2)"
  shows "absent salt False nm privileges grant database user host grant_option escape w =
           (\<lparr>name = nm, changes = Map.empty, result = Some True,
             comment = ''Grant '' @ py_str p @ '' on '' @ py_str database @ '' to ''
                        @ py_str user @ ''@'' @ py_str host
                        @ '' is not present, so it cannot be revoked''\<rparr>,
            \<lparr>backend = s2,
             calls = calls w @ [GrantExists p database user host grant_option escape,
                                GrantRevoke p database user host grant_option]\<rparr>)
       \<and> sublist ''is not present, so it cannot be revoked''
           (comment (fst (absent salt False nm privileges grant database user host grant_option
                            escape w)))"
proof -
  have "sublist ''is not present, so it cannot be revoked''
          ((''Grant '' @ py_str p @ '' on '' @ py_str database @ '' to '' @ py_str user @ ''@''
              @ py_str host @ '' '') @ ''is not present, so it cannot be revoked'')"
    by (rule sublist_append_leftI)
  moreover have "truthy (PyBool True)"
    by simp
  ultimately show ?thesis
    using assms absent_path_revoke [of salt privileges grant database user host grant_option
                                      escape w "PyBool True" s1 "PyBool False" s2 nm]
    by simp
qed

theorem absent_failed_revoke_reports_not_present_witness:
  "absent (const_salt (PyBool True) (PyBool False) PyNone) False ''frank_exampledb''
     (Some ''select,insert'') None (Some ''exampledb.*'') (Some ''frank'') (Some ''localhost'')
     False True \<lparr>backend = (), calls = []\<rparr> =
   (\<lparr>name = ''frank_exampledb'', changes = Map.empty, result = Some True,
     comment = ''Grant select,insert on exampledb.* to frank@localhost is not present, so it cannot be revoked''\<rparr>,
    \<lparr>backend = (),
     calls = [GrantExists (Some ''select,insert'') (Some ''exampledb.*'') (Some ''frank'')
                (Some ''localhost'') False True,
              GrantRevoke (Some ''select,insert'') (Some ''exampledb.*'') (Some ''frank'')
                (Some ''localhost'') False]\<rparr>)"
  using absent_failed_revoke_reports_not_present
    [where p = "Some ''select,insert''" and privileges = "Some ''select,insert''" and grant = None
       and salt = "const_salt (PyBool True) (PyBool False) PyNone"
       and database = "Some ''exampledb.*''" and user = "Some ''frank''"
       and host = "Some ''localhost''" and grant_option = False and escape = True
       and w = "\<lparr>backend = (), calls = []\<rparr>" and ?s1.0 = "()" and ?s2.0 = "()"
       and nm = "''frank_exampledb''"]
  by (simp add: effective_privileges_def)

text \<open>
  C9. When \<^verbatim>\<open>absent\<close> revokes a grant (the existence check answers \<^verbatim>\<open>True\<close>, not
  dry-run, \<^verbatim>\<open>grant_revoke\<close> succeeds), the comment it returns is the template of line
  192 itself, "Grant ... has been revoked" with its four placeholders \<^verbatim>\<open>{0}\<close> to \<^verbatim>\<open>{3}\<close>
  still in it: the formatted string computed on line 193 is dropped. So the comment is the
  same for every spec, and \<^verbatim>\<open>changes\<close> maps the name to "Absent" with \<^verbatim>\<open>result\<close> \<^verbatim>\<open>True\<close>.
\<close>

theorem absent_revoked_comment_is_template:
  assumes "p = effective_privileges privileges grant"
    and "salt (GrantExists p database user host grant_option escape) (backend w) = (PyBool True, s1)"
    and "salt (GrantRevoke p database user host grant_option) s1 = (r, s2)"
    and "truthy r"
  shows "fst (absent salt False nm privileges grant database user host grant_option escape w) =
           \<lparr>name = nm, changes = [nm \<mapsto> ''Absent''], result = Some True,
            comment = ''Grant {0} on {1} for {2}@'' @ ''{3} has been revoked''\<rparr>"
proof -
  have "truthy (PyBool True)"
    by simp
  then show ?thesis
    using assms absent_path_revoke [of salt privileges grant database user host grant_option
                                      escape w "PyBool True" s1 r s2 nm]
    by simp
qed

theorem absent_revoked_comment_is_template_witness:
  "comment (fst (absent (const_salt (PyBool True) (PyBool True) PyNone) False ''frank_exampledb''
                   (Some ''select,insert'') None (Some ''exampledb.*'') (Some ''frank'')
                   (Some ''localhost'') False True \<lparr>backend = (), calls = []\<rparr>)) =
     ''Grant {0} on {1} for {2}@'' @ ''{3} has been revoked''
   \<and> comment (fst (absent (const_salt (PyBool True) (PyBool True) PyNone) False ''frank_exampledb''
                   (Some ''select,insert'') None (Some ''exampledb.*'') (Some ''frank'')
                   (Some ''localhost'') False True \<lparr>backend = (), calls = []\<rparr>)) \<noteq>
     ''Grant select,insert on exampledb.* for frank@localhost has been revoked''"
  using absent_revoked_comment_is_template
    [where p = "Some ''select,insert''" and privileges = "Some ''select,insert''" and grant = None
       and salt = "const_salt (PyBool True) (PyBool True) PyNone"
       and database = "Some ''exampledb.*''" and user = "Some ''frank''"
       and host = "Some ''localhost''" and grant_option = False and escape = True
       and w = "\<lparr>backend = (), calls = []\<rparr>" and ?s1.0 = "()" and ?s2.0 = "()"
       and r = "PyBool True" and nm = "''frank_exampledb''"]
  by (simp add: effective_privileges_def)

text \<open>
  C2, as stated, fails on the answer \<^verbatim>\<open>None\<close>: line 174 tests the answer for truth, and
  \<^verbatim>\<open>None\<close> is false. In dry-run mode the result is then \<^verbatim>\<open>True\<close> with the "not present"
  comment, and outside dry-run mode no \<^verbatim>\<open>grant_revoke\<close> call is made.
\<close>

theorem absent_indeterminate_counterexample:
  "absent (const_salt PyNone (PyBool True) (PyBool True)) True ''frank_exampledb''
     (Some ''select,insert'') None (Some ''exampledb.*'') (Some ''frank'') (Some ''localhost'')
     False True \<lparr>backend = (), calls = []\<rparr> =
   (\<lparr>name = ''frank_exampledb'', changes = Map.empty, result = Some True,
     comment = ''Grant select,insert on exampledb.* to frank@localhost is not present, so it cannot be revoked''\<rparr>,
    \<lparr>backend = (),
     calls = [GrantExists (Some ''select,insert'') (Some ''exampledb.*'') (Some ''frank'')
                (Some ''localhost'') False True]\<rparr>)
   \<and> calls (snd (absent (const_salt PyNone (PyBool True) (PyBool True)) False ''frank_exampledb''
                   (Some ''select,insert'') None (Some ''exampledb.*'') (Some ''frank'')
                   (Some ''localhost'') False True \<lparr>backend = (), calls = []\<rparr>)) =
     [GrantExists (Some ''select,insert'') (Some ''exampledb.*'') (Some ''frank'')
        (Some ''localhost'') False True]"
  using absent_path_fallback
    [where salt = "const_salt PyNone (PyBool True) (PyBool True)"
       and privileges = "Some ''select,insert''" and grant = None
       and database = "Some ''exampledb.*''" and user = "Some ''frank''"
       and host = "Some ''localhost''" and grant_option = False and escape = True
       and w = "\<lparr>backend = (), calls = []\<rparr>" and v = PyNone and ?s1.0 = "()"
       and nm = "''frank_exampledb''"]
  by (simp add: effective_privileges_def)

text \<open>
  C2, amended. When the existence check answers \<^verbatim>\<open>True\<close>, \<^verbatim>\<open>absent\<close> reports
  "... is set to be revoked" with \<^verbatim>\<open>result\<close> \<^verbatim>\<open>None\<close> and no mutation in dry-run mode, and
  otherwise issues one \<^verbatim>\<open>grant_revoke\<close> call for the privileges of the spec. The answer
  \<^verbatim>\<open>None\<close> is handled the same way as \<^verbatim>\<open>False\<close>: in either mode the only backend call is
  the existence check, and the record returned has \<^verbatim>\<open>result\<close> \<^verbatim>\<open>True\<close>, empty
  \<^verbatim>\<open>changes\<close> and the "not present" comment.
\<close>

theorem absent_revokes_only_on_true:
  assumes "p = effective_privileges privileges grant"
    and "salt (GrantExists p database user host grant_option escape) (backend w) = (v, s1)"
  shows "(v = PyBool True \<longrightarrow>
            absent salt True nm privileges grant database user host grant_option escape w =
              (\<lparr>name = nm, changes = Map.empty, result = None,
                comment = ''MySQL grant '' @ nm @ '' is set to be revoked''\<rparr>,
               \<lparr>backend = s1,
                calls = calls w @ [GrantExists p database user host grant_option escape]\<rparr>)
            \<and> calls (snd (absent salt False nm privileges grant database user host grant_option
                             escape w)) =
                calls w @ [GrantExists p database user host grant_option escape,
                           GrantRevoke p database user host grant_option])
       \<and> (v = PyNone \<or> v = PyBool False \<longrightarrow>
            absent salt test nm privileges grant database user host grant_option escape w =
              (\<lparr>name = nm, changes = Map.empty, result = Some True,
                comment = ''Grant '' @ py_str p @ '' on '' @ py_str database @ '' to ''
                           @ py_str user @ ''@'' @ py_str host
                           @ '' is not present, so it cannot be revoked''\<rparr>,
               \<lparr>backend = s1,
                calls = calls w @ [GrantExists p database user host grant_option escape]\<rparr>))"
proof (intro conjI impI)
  assume v: "v = PyBool True"
  with assms show
    "absent salt True nm privileges grant database user host grant_option escape w =
       (\<lparr>name = nm, changes = Map.empty, result = None,
         comment = ''MySQL grant '' @ nm @ '' is set to be revoked''\<rparr>,
        \<lparr>backend = s1,
         calls = calls w @ [GrantExists p database user host grant_option escape]\<rparr>)"
    by (simp add: absent_path_test)
  obtain r s2 where "salt (GrantRevoke p database user host grant_option) s1 = (r, s2)"
    by (cases "salt (GrantRevoke p database user host grant_option) s1")
  with assms v show
    "calls (snd (absent salt False nm privileges grant database user host grant_option
                   escape w)) =
       calls w @ [GrantExists p database user host grant_option escape,
                  GrantRevoke p database user host grant_option]"
    by (simp add: absent_path_revoke)
next
  assume "v = PyNone \<or> v = PyBool False"
  then have "\<not> truthy v"
    by auto
  with assms show
    "absent salt test nm privileges grant database user host grant_option escape w =
       (\<lparr>name = nm, changes = Map.empty, result = Some True,
         comment = ''Grant '' @ py_str p @ '' on '' @ py_str database @ '' to ''
                    @ py_str user @ ''@'' @ py_str host
                    @ '' is not present, so it cannot be revoked''\<rparr>,
        \<lparr>backend = s1,
         calls = calls w @ [GrantExists p database user host grant_option escape]\<rparr>)"
    by (simp add: absent_path_fallback)
qed

theorem absent_revokes_only_on_true_witness:
  "result (fst (absent (const_salt (PyBool True) (PyBool True) PyNone) True ''frank_exampledb''
                  (Some ''select,insert'') None (Some ''exampledb.*'') (Some ''frank'')
                  (Some ''localhost'') False True \<lparr>backend = (), calls = []\<rparr>)) = None
   \<and> calls (snd (absent (const_salt (PyBool True) (PyBool True) PyNone) False ''frank_exampledb''
                  (Some ''select,insert'') None (Some ''exampledb.*'') (Some ''frank'')
                  (Some ''localhost'') False True \<lparr>backend = (), calls = []\<rparr>)) =
       [GrantExists (Some ''select,insert'') (Some ''exampledb.*'') (Some ''frank'')
          (Some ''localhost'') False True,
        GrantRevoke (Some ''select,insert'') (Some ''exampledb.*'') (Some ''frank'')
          (Some ''localhost'') False]
   \<and> result (fst (absent (const_salt PyNone (PyBool True) PyNone) True ''frank_exampledb''
                  (Some ''select,insert'') None (Some ''exampledb.*'') (Some ''frank'')
                  (Some ''localhost'') False True \<lparr>backend = (), calls = []\<rparr>)) = Some True"
  using absent_revokes_only_on_true
    [where p = "Some ''select,insert''" and privileges = "Some ''select,insert''" and grant = None
       and salt = "const_salt (PyBool True) (PyBool True) PyNone"
       and database = "Some ''exampledb.*''" and user = "Some ''frank''"
       and host = "Some ''localhost''" and grant_option = False and escape = True
       and w = "\<lparr>backend = (), calls = []\<rparr>" and v = "PyBool True" and ?s1.0 = "()"
       and nm = "''frank_exampledb''"]
    absent_revokes_only_on_true
    [where p = "Some ''select,insert''" and privileges = "Some ''select,insert''" and grant = None
       and salt = "const_salt PyNone (PyBool True) PyNone"
       and database = "Some ''exampledb.*''" and user = "Some ''frank''"
       and host = "Some ''localhost''" and grant_option = False and escape = True
       and w = "\<lparr>backend = (), calls = []\<rparr>" and v = PyNone and ?s1.0 = "()"
       and nm = "''frank_exampledb''" and test = True]
  by (simp add: effective_privileges_def)

section \<open>Dry-run mode\<close>

text \<open>
  C4, as stated, fails where no action is due: in dry-run mode \<^verbatim>\<open>present\<close> on a grant
  that exists, and \<^verbatim>\<open>absent\<close> on a grant that does not, return \<^verbatim>\<open>result\<close> \<^verbatim>\<open>True\<close>, not
  \<^verbatim>\<open>None\<close>.
\<close>

theorem dry_run_result_counterexample:
  "result (fst (present (const_salt (PyBool True) (PyBool True) (PyBool True)) True
                  ''frank_exampledb'' (Some ''select,insert'') None (Some ''exampledb.*'')
                  (Some ''frank'') (Some ''localhost'') False True
                  \<lparr>backend = (), calls = []\<rparr>)) = Some True
   \<and> result (fst (absent (const_salt (PyBool False) (PyBool True) (PyBool True)) True
                  ''frank_exampledb'' (Some ''select,insert'') None (Some ''exampledb.*'')
                  (Some ''frank'') (Some ''localhost'') False True
                  \<lparr>backend = (), calls = []\<rparr>)) = Some True"
  using present_path_exists
    [where salt = "const_salt (PyBool True) (PyBool True) (PyBool True)"
       and privileges = "Some ''select,insert''" and grant = None
       and database = "Some ''exampledb.*''" and user = "Some ''frank''"
       and host = "Some ''localhost''" and grant_option = False and escape = True
       and w = "\<lparr>backend = (), calls = []\<rparr>" and ?s1.0 = "()" and test = True
       and nm = "''frank_exampledb''"]
    absent_path_fallback
    [where salt = "const_salt (PyBool False) (PyBool True) (PyBool True)"
       and privileges = "Some ''select,insert''" and grant = None
       and database = "Some ''exampledb.*''" and user = "Some ''frank''"
       and host = "Some ''localhost''" and grant_option = False and escape = True
       and w = "\<lparr>backend = (), calls = []\<rparr>" and v = "PyBool False" and ?s1.0 = "()"
       and test = True and nm = "''frank_exampledb''"]
  by (simp add: effective_privileges_def)

text \<open>
  C4, amended. In dry-run mode, for every spec and every answer of the existence check,
  \<^verbatim>\<open>present\<close> and \<^verbatim>\<open>absent\<close> make no mutation call: the existence check is their only
  backend call. Where an action is due (\<^verbatim>\<open>present\<close>: the answer is not \<^verbatim>\<open>True\<close>;
  \<^verbatim>\<open>absent\<close>: the answer is \<^verbatim>\<open>True\<close>) the result is \<^verbatim>\<open>None\<close> and the comment names the
  action, "... is set to be created" or "... is set to be revoked". Where none is due the
  result is \<^verbatim>\<open>True\<close>, with the "already present" or the "not present" comment.
\<close>

theorem dry_run_never_mutates:
  assumes "p = effective_privileges privileges grant"
    and "salt (GrantExists p database user host grant_option escape) (backend w) = (v, s1)"
    and "pr = present salt True nm privileges grant database user host grant_option escape w"
    and "ab = absent salt True nm privileges grant database user host grant_option escape w"
  shows "snd pr = \<lparr>backend = s1,
                   calls = calls w @ [GrantExists p database user host grant_option escape]\<rparr>
       \<and> snd ab = \<lparr>backend = s1,
                   calls = calls w @ [GrantExists p database user host grant_option escape]\<rparr>
       \<and> filter is_mutation (calls (snd pr)) = filter is_mutation (calls w)
       \<and> filter is_mutation (calls (snd ab)) = filter is_mutation (calls w)
       \<and> fst pr =
           (if v = PyBool True then
              \<lparr>name = nm, changes = Map.empty, result = Some True,
               comment = ''Grant '' @ py_str p @ '' on '' @ py_str database @ '' to ''
                          @ py_str user @ ''@'' @ py_str host @ '' is already present''\<rparr>
            else
              \<lparr>name = nm, changes = Map.empty, result = None,
               comment = ''MySQL grant '' @ nm @ '' is set to be created''\<rparr>)
       \<and> fst ab =
           (if truthy v then
              \<lparr>name = nm, changes = Map.empty, result = None,
               comment = ''MySQL grant '' @ nm @ '' is set to be revoked''\<rparr>
            else
              \<lparr>name = nm, changes = Map.empty, result = Some True,
               comment = ''Grant '' @ py_str p @ '' on '' @ py_str database @ '' to ''
                          @ py_str user @ ''@'' @ py_str host
                          @ '' is not present, so it cannot be revoked''\<rparr>)"
proof -
  have pr: "pr =
      ((if v = PyBool True then
          \<lparr>name = nm, changes = Map.empty, result = Some True,
           comment = ''Grant '' @ py_str p @ '' on '' @ py_str database @ '' to ''
                      @ py_str user @ ''@'' @ py_str host @ '' is already present''\<rparr>
        else
          \<lparr>name = nm, changes = Map.empty, result = None,
           comment = ''MySQL grant '' @ nm @ '' is set to be created''\<rparr>),
       \<lparr>backend = s1,
        calls = calls w @ [GrantExists p database user host grant_option escape]\<rparr>)"
    using assms(1-3) by (cases "v = PyBool True") (simp_all add: present_path_exists present_path_test)
  have ab: "ab =
      ((if truthy v then
          \<lparr>name = nm, changes = Map.empty, result = None,
           comment = ''MySQL grant '' @ nm @ '' is set to be revoked''\<rparr>
        else
          \<lparr>name = nm, changes = Map.empty, result = Some True,
           comment = ''Grant '' @ py_str p @ '' on '' @ py_str database @ '' to ''
                      @ py_str user @ ''@'' @ py_str host
                      @ '' is not present, so it cannot be revoked''\<rparr>),
       \<lparr>backend = s1,
        calls = calls w @ [GrantExists p database user host grant_option escape]\<rparr>)"
    using assms(1,2,4) by (cases "truthy v") (simp_all add: absent_path_test absent_path_fallback)
  show ?thesis
    unfolding pr ab by simp
qed

theorem dry_run_never_mutates_witness:
  "present (const_salt PyNone (PyBool True) (PyBool True)) True ''frank_exampledb''
     (Some ''select,insert'') None (Some ''exampledb.*'') (Some ''frank'') (Some ''localhost'')
     False True \<lparr>backend = (), calls = []\<rparr> =
   (\<lparr>name = ''frank_exampledb'', changes = Map.empty, result = None,
     comment = ''MySQL grant frank_exampledb is set to be created''\<rparr>,
    \<lparr>backend = (),
     calls = [GrantExists (Some ''select,insert'') (Some ''exampledb.*'') (Some ''frank'')
                (Some ''localhost'') False True]\<rparr>)
   \<and> absent (const_salt (PyBool True) (PyBool True) (PyBool True)) True ''frank_exampledb''
     (Some ''select,insert'') None (Some ''exampledb.*'') (Some ''frank'') (Some ''localhost'')
     False True \<lparr>backend = (), calls = []\<rparr> =
   (\<lparr>name = ''frank_exampledb'', changes = Map.empty, result = None,
     comment = ''MySQL grant frank_exampledb is set to be revoked''\<rparr>,
    \<lparr>backend = (),
     calls = [GrantExists (Some ''select,insert'') (Some ''exampledb.*'') (Some ''frank'')
                (Some ''localhost'') False True]\<rparr>)"
  using dry_run_never_mutates
    [where p = "Some ''select,insert''" and privileges = "Some ''select,insert''" and grant = None
       and salt = "const_salt PyNone (PyBool True) (PyBool True)"
       and database = "Some ''exampledb.*''" and user = "Some ''frank''"
       and host = "Some ''localhost''" and grant_option = False and escape = True
       and w = "\<lparr>backend = (), calls = []\<rparr>" and v = PyNone and ?s1.0 = "()"
       and nm = "''frank_exampledb''", OF _ _ refl refl]
    dry_run_never_mutates
    [where p = "Some ''select,insert''" and privileges = "Some ''select,insert''" and grant = None
       and salt = "const_salt (PyBool True) (PyBool True) (PyBool True)"
       and database = "Some ''exampledb.*''" and user = "Some ''frank''"
       and host = "Some ''localhost''" and grant_option = False and escape = True
       and w = "\<lparr>backend = (), calls = []\<rparr>" and v = "PyBool True" and ?s1.0 = "()"
       and nm = "''frank_exampledb''", OF _ _ refl refl]
  by (simp add: effective_privileges_def prod_eq_iff)

end
